theory Spec2Isabelle
  imports Main
begin

section \<open>Python strings\<close>

text \<open>
  A Python \<^verbatim>\<open>str\<close> is a sequence of Unicode code points, so a character is
  modelled by its code point and a string by the list of its characters. \<open>py\<close> writes
  an ASCII literal of the source as such a string.
\<close>

type_synonym pychar = nat
type_synonym pystr = "pychar list"

definition py :: "string \<Rightarrow> pystr" where
  "py s = map of_char s"

text \<open>
  \<^verbatim>\<open>str.isspace\<close> for one character, as \<^verbatim>\<open>str.strip()\<close> uses it: the
  whitespace table of CPython 3 (tab to carriage return, the four separators
  \<^verbatim>\<open>0x1C..0x1F\<close>, space, NEL, no-break space and the Unicode space characters).
\<close>

definition isspace :: "pychar \<Rightarrow> bool" where
  "isspace c =
     (c \<in> {0x09, 0x0A, 0x0B, 0x0C, 0x0D, 0x1C, 0x1D, 0x1E, 0x1F, 0x20, 0x85, 0xA0,
            0x1680, 0x2000, 0x2001, 0x2002, 0x2003, 0x2004, 0x2005, 0x2006, 0x2007,
            0x2008, 0x2009, 0x200A, 0x2028, 0x2029, 0x202F, 0x205F, 0x3000})"

text \<open>\<^verbatim>\<open>s.strip()\<close>: leading and trailing whitespace removed.\<close>

definition strip :: "pystr \<Rightarrow> pystr" where
  "strip s = rev (dropWhile isspace (rev (dropWhile isspace s)))"

text \<open>\<^verbatim>\<open>str(n)\<close> for a non-negative integer, as an f-string renders \<^verbatim>\<open>{len(xs)}\<close>.\<close>

fun str_nat :: "nat \<Rightarrow> pystr" where
  "str_nat n = (if n < 10 then [48 + n] else str_nat (n div 10) @ [48 + n mod 10])"

declare str_nat.simps [simp del]

text \<open>\<^verbatim>\<open>sep.join(xs)\<close>.\<close>

fun join :: "pystr \<Rightarrow> pystr list \<Rightarrow> pystr" where
  "join sep [] = []"
| "join sep [x] = x"
| "join sep (x # y # ys) = x @ sep @ join sep (y # ys)"

section \<open>The regular expression of \<^verbatim>\<open>convert_to_app_link\<close>\<close>

text \<open>
  The pattern \<^verbatim>\<open>(E\d{6}-\d{3})\<close> is a sequence of one-character atoms: the literal
  \<^verbatim>\<open>E\<close>, six times \<^verbatim>\<open>\d\<close>, the literal \<^verbatim>\<open>-\<close>, three times \<^verbatim>\<open>\d\<close>; its
  only group is the whole match. On a \<^verbatim>\<open>str\<close>, \<^verbatim>\<open>\d\<close> matches every decimal
  digit of the interpreter's Unicode database, a table that grows with the Unicode
  version: the digit test is the parameter \<open>d\<close> of everything below, and every
  theorem holds for each table.
\<close>

datatype atom = Lit pychar | Digit

fun match_atom :: "(pychar \<Rightarrow> bool) \<Rightarrow> atom \<Rightarrow> pychar \<Rightarrow> bool" where
  "match_atom d (Lit a) c = (c = a)"
| "match_atom d Digit c = d c"

text \<open>The pattern matches at the start of the string.\<close>

fun match_here :: "(pychar \<Rightarrow> bool) \<Rightarrow> atom list \<Rightarrow> pystr \<Rightarrow> bool" where
  "match_here d [] s = True"
| "match_here d (a # as) [] = False"
| "match_here d (a # as) (c # cs) = (match_atom d a c \<and> match_here d as cs)"

text \<open>
  \<^verbatim>\<open>re.search(pattern, s)\<close> scans the start positions from left to right and stops
  at the first one where the pattern matches; the result is \<^verbatim>\<open>match.group(1)\<close>, the
  matched text, or \<open>None\<close> when no position matches.
\<close>

fun re_search :: "(pychar \<Rightarrow> bool) \<Rightarrow> atom list \<Rightarrow> pystr \<Rightarrow> pystr option" where
  "re_search d pat [] = (if match_here d pat [] then Some [] else None)"
| "re_search d pat (c # cs) =
     (if match_here d pat (c # cs) then Some (take (length pat) (c # cs))
      else re_search d pat cs)"

definition product_id_pattern :: "atom list" where
  "product_id_pattern =
     [Lit (of_char CHR ''E'')] @ replicate 6 Digit @ [Lit (of_char CHR ''-'')] @ replicate 3 Digit"

section \<open>\<^verbatim>\<open>convert_to_app_link\<close> (script.py, lines 58-64)\<close>

definition deep_link_prefix :: pystr where
  "deep_link_prefix = py ''https://s.uniqlo.com/id/en/product/''"

definition convert_to_app_link :: "(pychar \<Rightarrow> bool) \<Rightarrow> pystr \<Rightarrow> pystr" where
  "convert_to_app_link d web_url =
     (case re_search d product_id_pattern web_url of
        None \<Rightarrow> web_url
      | Some product_id \<Rightarrow> deep_link_prefix @ product_id)"

text \<open>
  The identifier shape in words: the letter \<^verbatim>\<open>E\<close>, six digits, a hyphen, three
  digits, eleven characters in all.
\<close>

definition product_id :: "(pychar \<Rightarrow> bool) \<Rightarrow> pystr \<Rightarrow> bool" where
  "product_id d s \<longleftrightarrow>
     length s = 11 \<and> take 1 s = py ''E'' \<and> list_all d (take 6 (drop 1 s)) \<and>
     take 1 (drop 7 s) = py ''-'' \<and> list_all d (drop 8 s)"

text \<open>
  The identifier shape as the specification words it: one uppercase letter in place of
  the fixed \<^verbatim>\<open>E\<close>.
\<close>

definition spec_identifier :: "(pychar \<Rightarrow> bool) \<Rightarrow> pystr \<Rightarrow> bool" where
  "spec_identifier d s \<longleftrightarrow>
     length s = 11 \<and> list_all (\<lambda>c. of_char CHR ''A'' \<le> c \<and> c \<le> of_char CHR ''Z'') (take 1 s) \<and>
     list_all d (take 6 (drop 1 s)) \<and> take 1 (drop 7 s) = py ''-'' \<and> list_all d (drop 8 s)"

text \<open>The ASCII digits, the digit test used at concrete inputs.\<close>

definition ascii_digit :: "pychar \<Rightarrow> bool" where
  "ascii_digit c \<longleftrightarrow> 48 \<le> c \<and> c \<le> 57"

section \<open>Exceptions, console and network\<close>

text \<open>
  The exceptions the collaborators raise, each with the text \<^verbatim>\<open>str(e)\<close> gives. All
  are instances of \<^verbatim>\<open>Exception\<close>. \<open>WebDriverException\<close> stands for any exception of
  the browser driver (a timeout of the wait and a stale element are subclasses),
  \<open>RequestException\<close> for any transport failure of the HTTP library, \<open>HTTPError\<close> is
  its subclass raised by \<^verbatim>\<open>raise_for_status\<close>, \<open>OtherException\<close> is any other one.
\<close>

datatype exn =
    WebDriverException pystr
  | RequestException pystr
  | HTTPError pystr
  | OtherException pystr

fun str_exn :: "exn \<Rightarrow> pystr" where
  "str_exn (WebDriverException m) = m"
| "str_exn (RequestException m) = m"
| "str_exn (HTTPError m) = m"
| "str_exn (OtherException m) = m"

text \<open>What \<^verbatim>\<open>except requests.exceptions.RequestException\<close> catches.\<close>

fun is_RequestException :: "exn \<Rightarrow> bool" where
  "is_RequestException (RequestException m) = True"
| "is_RequestException (HTTPError m) = True"
| "is_RequestException (WebDriverException m) = False"
| "is_RequestException (OtherException m) = False"

text \<open>The JSON body of the POST (lines 74-79).\<close>

record payload =
  chat_id :: pystr
  message_text :: pystr
  parse_mode :: pystr
  disable_web_page_preview :: bool

text \<open>
  What a run does to the outside, in order: a line printed, a pause, the browser closed,
  an HTTP POST issued. \<open>Notify\<close> marks a call of \<^verbatim>\<open>send_telegram_notification\<close> with
  its argument; what the call does follows it in the trace.
\<close>

datatype event =
    Print pystr
  | Sleep nat
  | Quit
  | Post pystr payload
  | Notify pystr

text \<open>
  The response of the HTTP library: its status code and the text of the error
  \<^verbatim>\<open>raise_for_status\<close> builds for it. \<^verbatim>\<open>raise_for_status\<close> raises for the codes
  400 to 599.
\<close>

record response =
  status_code :: nat
  http_error_msg :: pystr

definition raise_for_status :: "response \<Rightarrow> exn option" where
  "raise_for_status r =
     (if 400 \<le> status_code r \<and> status_code r < 600 then Some (HTTPError (http_error_msg r))
      else None)"

text \<open>\<^verbatim>\<open>requests.post(api_url, json=payload)\<close>: a response, or an exception.\<close>

type_synonym requests_post = "pystr \<Rightarrow> payload \<Rightarrow> exn + response"

section \<open>Configuration (script.py, lines 36-54)\<close>

record config =
  TELEGRAM_BOT_TOKEN :: pystr
  TELEGRAM_CHAT_ID :: pystr
  PRODUCT_URLS :: "pystr list"

text \<open>The configuration as the source file has it.\<close>

definition source_config :: config where
  "source_config =
     \<lparr>TELEGRAM_BOT_TOKEN = py ''YOUR_BOT_TOKEN_HERE'',
      TELEGRAM_CHAT_ID = py ''YOUR_CHAT_ID_HERE'',
      PRODUCT_URLS =
        [py ''https://www.uniqlo.com/id/id/products/E479169-000?colorCode=COL09&sizeCode=SMA007'',
         py ''https://www.uniqlo.com/id/id/products/E474437-000?colorCode=COL00&sizeCode=SMA007'',
         py ''https://www.uniqlo.com/id/id/products/E478913-000?colorCode=COL00&sizeCode=SMA006'',
         py ''https://www.uniqlo.com/id/id/products/E474432-000?colorCode=COL09&sizeCode=SMA007'']\<rparr>"

section \<open>\<^verbatim>\<open>send_telegram_notification\<close> (script.py, lines 67-85)\<close>

text \<open>
  The body of the \<^verbatim>\<open>try\<close> (lines 81-83): the POST, \<^verbatim>\<open>raise_for_status\<close>, the
  success line. The result is what happened and the exception raised, if any.
\<close>

definition send_try :: "requests_post \<Rightarrow> pystr \<Rightarrow> payload \<Rightarrow> event list \<times> exn option" where
  "send_try post api_url pl =
     (case post api_url pl of
        Inl e \<Rightarrow> ([Post api_url pl], Some e)
      | Inr resp \<Rightarrow>
          (case raise_for_status resp of
             Some e \<Rightarrow> ([Post api_url pl], Some e)
           | None \<Rightarrow>
               ([Post api_url pl, Print (py ''--- Notification sent successfully to Telegram! ---'')],
                None)))"

text \<open>
  The function returns what it did and the exception that leaves it, if any: the handler
  of line 84 catches a \<^verbatim>\<open>RequestException\<close> only.
\<close>

definition send_telegram_notification ::
    "config \<Rightarrow> requests_post \<Rightarrow> pystr \<Rightarrow> event list \<times> exn option" where
  "send_telegram_notification cfg post message =
     (if TELEGRAM_BOT_TOKEN cfg = py ''YOUR_BOT_TOKEN_HERE'' \<or>
         TELEGRAM_CHAT_ID cfg = py ''YOUR_CHAT_ID_HERE''
      then ([Print (py ''--- TELEGRAM ERROR: Please set your TELEGRAM_BOT_TOKEN and TELEGRAM_CHAT_ID. ---'')],
            None)
      else
        (let api_url = py ''https://api.telegram.org/bot'' @ TELEGRAM_BOT_TOKEN cfg @ py ''/sendMessage'';
             pl = \<lparr>chat_id = TELEGRAM_CHAT_ID cfg, message_text = message,
                   parse_mode = py ''Markdown'', disable_web_page_preview = True\<rparr>
         in case send_try post api_url pl of
              (evs, None) \<Rightarrow> (evs, None)
            | (evs, Some e) \<Rightarrow>
                (if is_RequestException e
                 then (evs @ [Print (py ''--- ERROR sending notification: '' @ str_exn e @ py '' ---'')],
                       None)
                 else (evs, Some e))))"

section \<open>The browser\<close>

text \<open>
  The browser is an outside collaborator: the model scripts what it answers. An element
  is what reading its \<^verbatim>\<open>.text\<close> gives, a string or an exception. A page is what the
  driver does after \<^verbatim>\<open>driver.get(url)\<close>: whether \<^verbatim>\<open>get\<close> raises, what the wait of at
  most 15 seconds for \<^verbatim>\<open>h1.fr-head\<close> gives (the element, or the exception of the
  timeout), and what \<^verbatim>\<open>find_elements\<close> gives for the class \<^verbatim>\<open>fr-price-currency\<close>.
  A driver maps the URL it is sent to, to the page it then shows.
\<close>

datatype element = Element (element_text: "exn + pystr")

record page =
  get_raises :: "exn option"
  title_wait :: "exn + element"
  find_elements :: "exn + element list"

type_synonym driver = "pystr \<Rightarrow> page"

section \<open>\<^verbatim>\<open>check_specific_item_price_selenium\<close> (script.py, lines 88-125)\<close>

record product_details =
  name :: pystr
  current_price :: pystr
  is_on_sale :: bool
  original_price :: "pystr option"
  url :: pystr

text \<open>The dictionary of lines 89-95.\<close>

definition initial_details :: "pystr \<Rightarrow> product_details" where
  "initial_details product_url =
     \<lparr>name = py ''Name not found'', current_price = py ''Price not found'',
      is_on_sale = False, original_price = None, url = product_url\<rparr>"

text \<open>
  The body of the \<^verbatim>\<open>try\<close> (lines 97-122). The dictionary is updated in place, so an
  exception leaves it as it is at that moment: the result is the dictionary and the
  exception raised, if any.
\<close>

definition check_try :: "pystr \<Rightarrow> driver \<Rightarrow> product_details \<Rightarrow> product_details \<times> exn option" where
  "check_try product_url driver details =
     (let page = driver product_url in
      case get_raises page of
        Some e \<Rightarrow> (details, Some e)
      | None \<Rightarrow>
     (case title_wait page of
        Inl e \<Rightarrow> (details, Some e)
      | Inr title_element \<Rightarrow>
     (case element_text title_element of
        Inl e \<Rightarrow> (details, Some e)
      | Inr title \<Rightarrow>
     (let details = details\<lparr>name := title\<rparr> in
      case find_elements page of
        Inl e \<Rightarrow> (details, Some e)
      | Inr price_elements \<Rightarrow>
          if 2 \<le> length price_elements then
            (case element_text (price_elements ! 0) of
               Inl e \<Rightarrow> (details, Some e)
             | Inr text0 \<Rightarrow>
            (case element_text (price_elements ! 1) of
               Inl e \<Rightarrow> (details, Some e)
             | Inr text1 \<Rightarrow>
                (let original_price_text = strip text0;
                     sale_price_text = strip text1
                 in if original_price_text \<noteq> [] \<and> sale_price_text \<noteq> []
                    then (details\<lparr>is_on_sale := True,
                                   original_price := Some original_price_text,
                                   current_price := sale_price_text\<rparr>, None)
                    else (details, None))))
          else if length price_elements = 1 then
            (case element_text (price_elements ! 0) of
               Inl e \<Rightarrow> (details, Some e)
             | Inr text0 \<Rightarrow> (details\<lparr>current_price := strip text0\<rparr>, None))
          else (details, None)))))"

text \<open>
  The function: the handler of line 123 catches every exception of the body, prints a
  line and returns the dictionary. The result is the dictionary returned and the lines
  printed.
\<close>

definition check_specific_item_price_selenium ::
    "pystr \<Rightarrow> driver \<Rightarrow> product_details \<times> event list" where
  "check_specific_item_price_selenium product_url driver =
     (case check_try product_url driver (initial_details product_url) of
        (details, None) \<Rightarrow> (details, [])
      | (details, Some e) \<Rightarrow>
          (details,
           [Print (py ''      -> An error occurred while checking '' @ product_url @ py '': '' @
                   str_exn e)]))"

section \<open>\<^verbatim>\<open>main\<close> (script.py, lines 143-172)\<close>

text \<open>
  The loop of lines 144-149. \<open>browser i\<close> is the driver as it answers during the
  check of item \<open>i\<close>, \<open>n\<close> is \<^verbatim>\<open>len(PRODUCT_URLS)\<close>. The dictionary returned is
  never empty, so the test of line 147 is the test of its \<^verbatim>\<open>is_on_sale\<close>.
\<close>

fun main_loop ::
    "(nat \<Rightarrow> driver) \<Rightarrow> nat \<Rightarrow> nat \<Rightarrow> pystr list \<Rightarrow> product_details list \<Rightarrow>
     product_details list \<times> event list" where
  "main_loop browser n i [] sale_items = (sale_items, [])"
| "main_loop browser n i (u # urls) sale_items =
     (let (item_details, log) = check_specific_item_price_selenium u (browser i);
          sale_items = (if is_on_sale item_details then sale_items @ [item_details] else sale_items);
          (final_items, rest) = main_loop browser n (i + 1) urls sale_items
      in (final_items,
          [Print (py ''Checking item '' @ str_nat (i + 1) @ py ''/'' @ str_nat n @ py '': '' @ u)] @
          log @ [Sleep 2] @ rest))"

text \<open>The line feed, and the four characters that open and close the title in the source.\<close>

definition nl :: pystr where
  "nl = [0x0A]"

definition title_mark :: pystr where
  "title_mark = [0xF0, 0x178, 0x201D, 0xA5]"

text \<open>An f-string renders \<open>None\<close> as the word.\<close>

fun format_optional :: "pystr option \<Rightarrow> pystr" where
  "format_optional None = py ''None''"
| "format_optional (Some s) = s"

text \<open>Line 157.\<close>

definition message_title :: "nat \<Rightarrow> pystr" where
  "message_title n =
     title_mark @ py '' *Uniqlo Sale Alert!* '' @ title_mark @ nl @ nl @
     py ''You have '' @ str_nat n @ py '' item(s) on sale:'' @ nl"

text \<open>Lines 161-166.\<close>

definition detail_line :: "(pychar \<Rightarrow> bool) \<Rightarrow> product_details \<Rightarrow> pystr" where
  "detail_line d item =
     (let app_link = convert_to_app_link d (url item)
      in nl @ py ''*'' @ name item @ py ''*'' @ nl @
         py ''Now *'' @ current_price item @ py ''* (was ~'' @
           format_optional (original_price item) @ py ''~)'' @ nl @
         py ''[Tap to open in app]('' @ app_link @ py '')'')"

text \<open>The loop of lines 160-167, appending to \<^verbatim>\<open>message_details\<close>.\<close>

fun details_loop :: "(pychar \<Rightarrow> bool) \<Rightarrow> product_details list \<Rightarrow> pystr list \<Rightarrow> pystr list" where
  "details_loop d [] message_details = message_details"
| "details_loop d (item # items) message_details =
     details_loop d items (message_details @ [detail_line d item])"

text \<open>Line 169.\<close>

definition final_message :: "(pychar \<Rightarrow> bool) \<Rightarrow> product_details list \<Rightarrow> pystr" where
  "final_message d sale_items =
     message_title (length sale_items) @ join nl (details_loop d sale_items [])"

text \<open>
  The run from the loop to the notification (lines 143-172), with a started driver: the
  lines before (the start line with the time, the start of the browser) and the last
  line (the completion line with the time) are outside the model. \<^verbatim>\<open>print\<close>,
  \<^verbatim>\<open>time.sleep\<close> and \<^verbatim>\<open>driver.quit\<close> are taken not to raise. The result is the
  trace of the run and the exception that leaves \<^verbatim>\<open>main\<close>, if any.
\<close>

definition main ::
    "(pychar \<Rightarrow> bool) \<Rightarrow> config \<Rightarrow> (nat \<Rightarrow> driver) \<Rightarrow> requests_post \<Rightarrow> event list \<times> exn option" where
  "main d cfg browser post =
     (let (sale_items, log) =
            main_loop browser (length (PRODUCT_URLS cfg)) 0 (PRODUCT_URLS cfg) []
      in if sale_items \<noteq> [] then
           (let message = final_message d sale_items;
                (sent, raised) = send_telegram_notification cfg post message
            in (log @
                [Quit,
                 Print (nl @ py ''Found '' @ str_nat (length sale_items) @
                        py '' item(s) on sale! Preparing summary notification...''),
                 Notify message] @ sent,
                raised))
         else
           (log @ [Quit, Print (nl @ py ''Finished check. No items are on sale today.'')], None))"

section \<open>Notions used in the statements\<close>

text \<open>
  An element whose text can be read, and a page that loads, whose title reads \<open>title\<close>
  and whose price query yields \<open>elements\<close>.
\<close>

definition readable :: "pystr \<Rightarrow> element" where
  "readable t = Element (Inr t)"

definition loaded :: "pystr \<Rightarrow> element list \<Rightarrow> page" where
  "loaded title elements =
     \<lparr>get_raises = None, title_wait = Inr (readable title), find_elements = Inr elements\<rparr>"

text \<open>
  What the extraction returns when it meets the failure \<open>e\<close> with the name \<open>nm\<close> in
  the dictionary: the placeholder price, not on sale, no original price, the URL given,
  and the line printed by the handler.
\<close>

definition failure_result :: "pystr \<Rightarrow> pystr \<Rightarrow> exn \<Rightarrow> product_details \<times> event list" where
  "failure_result u nm e =
     (\<lparr>name = nm, current_price = py ''Price not found'', is_on_sale = False,
       original_price = None, url = u\<rparr>,
      [Print (py ''      -> An error occurred while checking '' @ u @ py '': '' @ str_exn e)])"

text \<open>
  The messages \<^verbatim>\<open>send_telegram_notification\<close> was called with, in the order of the
  calls.
\<close>

fun notifier_calls :: "event list \<Rightarrow> pystr list" where
  "notifier_calls [] = []"
| "notifier_calls (Notify m # evs) = m # notifier_calls evs"
| "notifier_calls (Print l # evs) = notifier_calls evs"
| "notifier_calls (Sleep t # evs) = notifier_calls evs"
| "notifier_calls (Quit # evs) = notifier_calls evs"
| "notifier_calls (Post a pl # evs) = notifier_calls evs"

text \<open>The HTTP POSTs of a trace.\<close>

fun posts :: "event list \<Rightarrow> (pystr \<times> payload) list" where
  "posts [] = []"
| "posts (Post a pl # evs) = (a, pl) # posts evs"
| "posts (Print l # evs) = posts evs"
| "posts (Sleep t # evs) = posts evs"
| "posts (Quit # evs) = posts evs"
| "posts (Notify m # evs) = posts evs"

text \<open>
  The snapshots the extraction returns for the URLs of a run, in the order of the list;
  \<open>i\<close> is the index of the first.
\<close>

fun extracted :: "(nat \<Rightarrow> driver) \<Rightarrow> nat \<Rightarrow> pystr list \<Rightarrow> product_details list" where
  "extracted browser i [] = []"
| "extracted browser i (u # urls) =
     fst (check_specific_item_price_selenium u (browser i)) # extracted browser (i + 1) urls"

text \<open>The snapshots on sale among those extracted, in the order of the URL list.\<close>

definition sale_report :: "(nat \<Rightarrow> driver) \<Rightarrow> pystr list \<Rightarrow> product_details list" where
  "sale_report browser urls = filter is_on_sale (extracted browser 0 urls)"

text \<open>
  The credentials are configured: neither holds its placeholder value. The POST of a
  message: to the bot endpoint, with the chat target, the text, the markup mode and the
  link preview disabled.
\<close>

definition configured :: "config \<Rightarrow> bool" where
  "configured cfg \<longleftrightarrow>
     TELEGRAM_BOT_TOKEN cfg \<noteq> py ''YOUR_BOT_TOKEN_HERE'' \<and>
     TELEGRAM_CHAT_ID cfg \<noteq> py ''YOUR_CHAT_ID_HERE''"

definition telegram_post :: "config \<Rightarrow> pystr \<Rightarrow> pystr \<times> payload" where
  "telegram_post cfg message =
     (py ''https://api.telegram.org/bot'' @ TELEGRAM_BOT_TOKEN cfg @ py ''/sendMessage'',
      \<lparr>chat_id = TELEGRAM_CHAT_ID cfg, message_text = message,
       parse_mode = py ''Markdown'', disable_web_page_preview = True\<rparr>)"

text \<open>
  The layout of the message as the specification words it, line by line: the markup of
  bold text, of struck-through text and of a hyperlink; the header; the block of one
  snapshot; the whole message, each block after a blank line.
\<close>

definition bold :: "pystr \<Rightarrow> pystr" where
  "bold s = py ''*'' @ s @ py ''*''"

definition strikethrough :: "pystr \<Rightarrow> pystr" where
  "strikethrough s = py ''~'' @ s @ py ''~''"

definition hyperlink :: "pystr \<Rightarrow> pystr \<Rightarrow> pystr" where
  "hyperlink label target = py ''['' @ label @ py '']('' @ target @ py '')''"

definition header_lines :: "nat \<Rightarrow> pystr list" where
  "header_lines n =
     [title_mark @ py '' '' @ bold (py ''Uniqlo Sale Alert!'') @ py '' '' @ title_mark,
      [],
      py ''You have '' @ str_nat n @ py '' item(s) on sale:'']"

definition block_lines :: "(pychar \<Rightarrow> bool) \<Rightarrow> product_details \<Rightarrow> pystr list" where
  "block_lines d item =
     [bold (name item),
      py ''Now '' @ bold (current_price item) @
        py '' (was '' @ strikethrough (the (original_price item)) @ py '')'',
      hyperlink (py ''Tap to open in app'') (convert_to_app_link d (url item))]"

definition message_lines :: "(pychar \<Rightarrow> bool) \<Rightarrow> product_details list \<Rightarrow> pystr list" where
  "message_lines d items =
     header_lines (length items) @ concat (map (\<lambda>item. [] # block_lines d item) items)"

section \<open>Concrete inputs\<close>

text \<open>
  URLs: the first configured one, one with no identifier, one whose identifier starts
  with another letter, and a product page.
\<close>

definition example_url :: pystr where
  "example_url =
     py ''https://www.uniqlo.com/id/id/products/E479169-000?colorCode=COL09&sizeCode=SMA007''"

definition no_id_url :: pystr where
  "no_id_url = py ''https://site/no-id-here''"

definition other_letter_url :: pystr where
  "other_letter_url = py ''https://www.uniqlo.com/id/id/products/A479169-000''"

definition item_url :: pystr where
  "item_url = py ''https://www.uniqlo.com/id/id/products/E479169-000''"

text \<open>
  Drivers, each showing the same page at every URL: two prices; two prices the first of
  which is padded with spaces; one padded price; no price; two prices the second of
  which is blank; three price elements the third of which cannot be read.
\<close>

definition two_prices_driver :: driver where
  "two_prices_driver u = loaded (py ''Shirt'') [readable (py ''120''), readable (py ''90'')]"

definition padded_sale_driver :: driver where
  "padded_sale_driver u = loaded (py ''Shirt'') [readable (py '' 120 ''), readable (py ''90'')]"

definition padded_regular_driver :: driver where
  "padded_regular_driver u = loaded (py ''Shirt'') [readable (py '' 75'')]"

definition no_price_driver :: driver where
  "no_price_driver u = loaded (py ''Shirt'') []"

definition blank_price_driver :: driver where
  "blank_price_driver u = loaded (py ''Shirt'') [readable (py ''120''), readable (py '' '')]"

definition three_prices_driver :: driver where
  "three_prices_driver u =
     loaded (py ''Shirt'')
       [readable (py ''120''), readable (py ''90''),
        Element (Inl (WebDriverException (py ''stale'')))]"

text \<open>
  Drivers that fail, one for each call the extraction makes: the navigation raises; the
  wait for the title times out; the title cannot be read; the price query raises; the
  only price cannot be read; the second price cannot be read. The first three show two
  prices all the same.
\<close>

definition unreachable_driver :: driver where
  "unreachable_driver u =
     \<lparr>get_raises = Some (WebDriverException (py ''unreachable'')),
      title_wait = Inr (readable (py ''Shirt'')),
      find_elements = Inr [readable (py ''120''), readable (py ''90'')]\<rparr>"

definition title_timeout_driver :: driver where
  "title_timeout_driver u =
     \<lparr>get_raises = None, title_wait = Inl (WebDriverException (py ''timeout'')),
      find_elements = Inr [readable (py ''120''), readable (py ''90'')]\<rparr>"

definition unreadable_title_driver :: driver where
  "unreadable_title_driver u =
     \<lparr>get_raises = None, title_wait = Inr (Element (Inl (WebDriverException (py ''stale'')))),
      find_elements = Inr [readable (py ''120''), readable (py ''90'')]\<rparr>"

definition failing_query_driver :: driver where
  "failing_query_driver u =
     \<lparr>get_raises = None, title_wait = Inr (readable (py ''Shirt'')),
      find_elements = Inl (WebDriverException (py ''stale''))\<rparr>"

definition unreadable_price_driver :: driver where
  "unreadable_price_driver u =
     loaded (py ''Shirt'') [Element (Inl (WebDriverException (py ''stale'')))]"

definition unreadable_second_price_driver :: driver where
  "unreadable_second_price_driver u =
     loaded (py ''Shirt'')
       [readable (py ''120''), Element (Inl (WebDriverException (py ''stale'')))]"

text \<open>
  Runs over three URLs: one in which only the second item is on sale, one in which no
  page shows a price. A browser that shows two prices for every item. An HTTP library
  that answers 200.
\<close>

definition three_urls_config :: config where
  "three_urls_config =
     \<lparr>TELEGRAM_BOT_TOKEN = py ''123:abc'', TELEGRAM_CHAT_ID = py ''42'',
      PRODUCT_URLS =
        [py ''https://www.uniqlo.com/id/id/products/E474437-000'',
         py ''https://www.uniqlo.com/id/id/products/E479169-000'',
         py ''https://www.uniqlo.com/id/id/products/E478913-000'']\<rparr>"

definition middle_sale_browser :: "nat \<Rightarrow> driver" where
  "middle_sale_browser i = (if i = 1 then two_prices_driver else no_price_driver)"

definition no_sale_browser :: "nat \<Rightarrow> driver" where
  "no_sale_browser i = no_price_driver"

definition every_sale_browser :: "nat \<Rightarrow> driver" where
  "every_sale_browser i = two_prices_driver"

definition ok_post :: requests_post where
  "ok_post api_url pl = Inr \<lparr>status_code = 200, http_error_msg = []\<rparr>"

text \<open>Two snapshots on sale.\<close>

definition shirt_on_sale :: product_details where
  "shirt_on_sale =
     \<lparr>name = py ''Shirt'', current_price = py ''90'', is_on_sale = True,
      original_price = Some (py ''120''), url = item_url\<rparr>"

definition socks_on_sale :: product_details where
  "socks_on_sale =
     \<lparr>name = py ''Socks'', current_price = py ''15'', is_on_sale = True,
      original_price = Some (py ''20''), url = no_id_url\<rparr>"

section \<open>Facts about matching and searching\<close>

lemma match_here_length: "match_here d pat s \<Longrightarrow> length pat \<le> length s"
  by (induction d pat s rule: match_here.induct) auto

lemma match_here_append:
  "match_here d (p @ q) s \<longleftrightarrow> match_here d p s \<and> match_here d q (drop (length p) s)"
  by (induction d p s rule: match_here.induct) auto

lemma match_here_Lit: "match_here d [Lit a] s \<longleftrightarrow> take 1 s = [a]"
  by (cases s) auto

lemma match_here_Digits:
  "match_here d (replicate n Digit) s \<longleftrightarrow> n \<le> length s \<and> list_all d (take n s)"
proof (induction n arbitrary: s)
  case 0
  show ?case by simp
next
  case (Suc n)
  show ?case by (cases s) (auto simp: Suc)
qed

lemma match_here_take:
  "match_here d pat s \<Longrightarrow> match_here d pat (take (length pat) s)"
  by (induction d pat s rule: match_here.induct) auto

lemma match_here_prefix:
  "length pat \<le> length s \<Longrightarrow> match_here d pat (s @ t) \<longleftrightarrow> match_here d pat s"
  by (induction d pat s rule: match_here.induct) auto

lemma length_product_id_pattern: "length product_id_pattern = 11"
  by (simp add: product_id_pattern_def)

lemma match_product_id_pattern:
  "match_here d product_id_pattern s \<longleftrightarrow> 11 \<le> length s \<and> product_id d (take 11 s)"
proof -
  have m: "match_here d product_id_pattern s \<longleftrightarrow>
      take 1 s = [69] \<and> (6 \<le> length s - 1 \<and> list_all d (take 6 (drop 1 s))) \<and>
      take 1 (drop 7 s) = [45] \<and> 3 \<le> length s - 8 \<and> list_all d (take 3 (drop 8 s))"
    unfolding product_id_pattern_def match_here_append match_here_Lit match_here_Digits
    by simp
  have n: "6 \<le> length s - 1 \<and> 3 \<le> length s - 8 \<longleftrightarrow> 11 \<le> length s"
    by arith
  have m': "match_here d product_id_pattern s \<longleftrightarrow>
      11 \<le> length s \<and> take 1 s = [69] \<and> list_all d (take 6 (drop 1 s)) \<and>
      take 1 (drop 7 s) = [45] \<and> list_all d (take 3 (drop 8 s))"
    using m n by blast
  have p: "11 \<le> length s \<Longrightarrow> product_id d (take 11 s) \<longleftrightarrow>
      take 1 s = [69] \<and> list_all d (take 6 (drop 1 s)) \<and>
      take 1 (drop 7 s) = [45] \<and> list_all d (take 3 (drop 8 s))"
    unfolding product_id_def by (simp add: py_def drop_take min_def)
  show ?thesis using m' p by blast
qed

lemma product_id_length: "product_id d ident \<Longrightarrow> length ident = 11"
  by (simp add: product_id_def)

lemma match_product_id:
  "product_id d ident \<Longrightarrow> match_here d product_id_pattern (ident @ post)"
  by (simp add: match_product_id_pattern product_id_length)

lemma match_is_product_id:
  "match_here d product_id_pattern t \<Longrightarrow> product_id d (take 11 t)"
  by (simp add: match_product_id_pattern)

lemma re_search_None:
  "re_search d pat s = None \<Longrightarrow> s = pre @ t \<Longrightarrow> \<not> match_here d pat t"
proof (induction s arbitrary: pre)
  case Nil
  then show ?case by (simp split: if_splits)
next
  case (Cons c cs)
  show ?case
  proof (cases pre)
    case Nil
    with Cons.prems show ?thesis by (auto split: if_splits)
  next
    case (Cons p ps)
    with Cons.prems have "re_search d pat cs = None" and "cs = ps @ t"
      by (simp_all split: if_splits)
    then show ?thesis by (rule Cons.IH)
  qed
qed

lemma re_search_Some:
  "re_search d pat s = Some m \<Longrightarrow>
     \<exists>pre t. s = pre @ t \<and> match_here d pat t \<and> m = take (length pat) t \<and>
       (\<forall>pre' t'. s = pre' @ t' \<and> match_here d pat t' \<longrightarrow> length pre \<le> length pre')"
proof (induction s)
  case Nil
  then show ?case by (simp split: if_splits)
next
  case (Cons c cs)
  show ?case
  proof (cases "match_here d pat (c # cs)")
    case True
    with Cons.prems have "m = take (length pat) (c # cs)" by simp
    with True show ?thesis by (intro exI [of _ "[]"] exI [of _ "c # cs"]) simp
  next
    case False
    with Cons.prems have "re_search d pat cs = Some m" by simp
    from Cons.IH [OF this] obtain pre t where
      s: "cs = pre @ t" and mt: "match_here d pat t" and m: "m = take (length pat) t" and
      least: "\<forall>pre' t'. cs = pre' @ t' \<and> match_here d pat t' \<longrightarrow> length pre \<le> length pre'"
      by blast
    have "\<forall>pre' t'. c # cs = pre' @ t' \<and> match_here d pat t' \<longrightarrow> length (c # pre) \<le> length pre'"
    proof (intro allI impI)
      fix pre' t'
      assume a: "c # cs = pre' @ t' \<and> match_here d pat t'"
      with False obtain ps where ps: "pre' = c # ps" by (cases pre') auto
      with a least have "length pre \<le> length ps" by simp
      with ps show "length (c # pre) \<le> length pre'" by simp
    qed
    with s mt m show ?thesis by (intro exI [of _ "c # pre"] exI [of _ t]) simp
  qed
qed

lemma re_search_skip:
  "\<forall>c \<in> set pre. c \<noteq> a \<Longrightarrow> s \<noteq> [] \<Longrightarrow>
     re_search d (Lit a # pat) (pre @ s) = re_search d (Lit a # pat) s"
  by (induction pre) auto

lemma re_search_here:
  "match_here d pat s \<Longrightarrow> s \<noteq> [] \<Longrightarrow> re_search d pat s = Some (take (length pat) s)"
  by (cases s) auto

section \<open>The deep link\<close>

lemma convert_deep_link:
  assumes "match_here d product_id_pattern ident" and "length ident = 11"
  shows "convert_to_app_link d (deep_link_prefix @ ident) = deep_link_prefix @ ident"
proof -
  have ne: "ident \<noteq> []" using assms(2) by auto
  have pat: "product_id_pattern = Lit 69 # (replicate 6 Digit @ [Lit 45] @ replicate 3 Digit)"
    by (simp add: product_id_pattern_def)
  have noE: "\<forall>c \<in> set deep_link_prefix. c \<noteq> 69"
    by (simp add: deep_link_prefix_def py_def)
  have "re_search d product_id_pattern (deep_link_prefix @ ident) = re_search d product_id_pattern ident"
    unfolding pat using noE ne by (rule re_search_skip)
  also have "\<dots> = Some (take (length product_id_pattern) ident)"
    using assms(1) ne by (rule re_search_here)
  also have "\<dots> = Some ident"
    by (simp add: length_product_id_pattern assms(2))
  finally show ?thesis by (simp add: convert_to_app_link_def)
qed

text \<open>
  Claim C9. \<^verbatim>\<open>convert_to_app_link\<close> is idempotent: applied to its own output it
  returns that output unchanged. This holds for every input, so also for every URL that
  contains a product identifier, and for every digit table.
\<close>

theorem convert_to_app_link_idempotent:
  "convert_to_app_link d (convert_to_app_link d web_url) = convert_to_app_link d web_url"
proof (cases "re_search d product_id_pattern web_url")
  case None
  then show ?thesis by (simp add: convert_to_app_link_def)
next
  case (Some m)
  from re_search_Some [OF Some] obtain pre t where
    mt: "match_here d product_id_pattern t" and m: "m = take (length product_id_pattern) t"
    by blast
  from mt have "match_here d product_id_pattern m"
    unfolding m by (rule match_here_take)
  moreover have "length m = 11"
    using match_here_length [OF mt] by (simp add: m length_product_id_pattern)
  ultimately have "convert_to_app_link d (deep_link_prefix @ m) = deep_link_prefix @ m"
    by (rule convert_deep_link)
  with Some show ?thesis by (simp add: convert_to_app_link_def)
qed

lemma product_id_pattern_atoms:
  "product_id_pattern =
     [Lit 69, Digit, Digit, Digit, Digit, Digit, Digit, Lit 45, Digit, Digit, Digit]"
proof -
  have "replicate 6 Digit = [Digit, Digit, Digit, Digit, Digit, Digit]"
    and "replicate 3 Digit = [Digit, Digit, Digit]"
    by (simp_all add: numeral_eq_Suc)
  then show ?thesis by (simp add: product_id_pattern_def)
qed

lemma convert_example:
  "convert_to_app_link ascii_digit example_url = py ''https://s.uniqlo.com/id/en/product/E479169-000''"
  by (simp add: example_url_def convert_to_app_link_def product_id_pattern_atoms py_def ascii_digit_def deep_link_prefix_def)

text \<open>
  Claim C9 at the first configured URL, which contains the identifier
  \<^verbatim>\<open>E479169-000\<close>.
\<close>

theorem convert_to_app_link_idempotent_witness:
  "convert_to_app_link ascii_digit (convert_to_app_link ascii_digit example_url) = convert_to_app_link ascii_digit example_url
   \<and> convert_to_app_link ascii_digit example_url = py ''https://s.uniqlo.com/id/en/product/E479169-000''"
  using convert_to_app_link_idempotent [of ascii_digit example_url] convert_example by simp

lemma product_id_has_E: "product_id d ident \<Longrightarrow> 69 \<in> set ident"
proof -
  assume "product_id d ident"
  then have "take 1 ident = [69]" by (simp add: product_id_def py_def)
  then have "69 \<in> set (take 1 ident)" by simp
  then show ?thesis by (rule in_set_takeD)
qed

lemma no_E_no_product_id:
  "69 \<notin> set web_url \<Longrightarrow> \<nexists>pre ident post. web_url = pre @ ident @ post \<and> product_id d ident"
  by (auto dest: product_id_has_E)

text \<open>
  Claim C5, as amended: the identifier shape is the letter \<^verbatim>\<open>E\<close> (not any
  uppercase letter), six digits, a hyphen and three digits. When the input contains a
  substring of that shape, the result is the fixed prefix followed by the leftmost such
  substring and nothing else; when it contains none, the result is the input unchanged.
\<close>

theorem convert_to_app_link_E_identifier:
  "((\<exists>pre ident post. web_url = pre @ ident @ post \<and> product_id d ident) \<longrightarrow>
      (\<exists>pre ident post. web_url = pre @ ident @ post \<and> product_id d ident \<and>
         (\<forall>pre' ident' post'. web_url = pre' @ ident' @ post' \<and> product_id d ident'
            \<longrightarrow> length pre \<le> length pre') \<and>
         convert_to_app_link d web_url = deep_link_prefix @ ident)) \<and>
   ((\<nexists>pre ident post. web_url = pre @ ident @ post \<and> product_id d ident) \<longrightarrow>
      convert_to_app_link d web_url = web_url)"
proof (cases "re_search d product_id_pattern web_url")
  case None
  have "\<nexists>pre ident post. web_url = pre @ ident @ post \<and> product_id d ident"
  proof
    assume "\<exists>pre ident post. web_url = pre @ ident @ post \<and> product_id d ident"
    then obtain pre ident post where w: "web_url = pre @ ident @ post" and p: "product_id d ident"
      by blast
    from p have "match_here d product_id_pattern (ident @ post)" by (rule match_product_id)
    with re_search_None [OF None w] show False by simp
  qed
  moreover from None have "convert_to_app_link d web_url = web_url"
    by (simp add: convert_to_app_link_def)
  ultimately show ?thesis by blast
next
  case (Some m)
  from re_search_Some [OF Some] obtain pre t where
    w: "web_url = pre @ t" and mt: "match_here d product_id_pattern t" and
    m: "m = take (length product_id_pattern) t" and
    least: "\<forall>pre' t'. web_url = pre' @ t' \<and> match_here d product_id_pattern t'
              \<longrightarrow> length pre \<le> length pre'"
    by blast
  have m11: "m = take 11 t" using m by (simp add: length_product_id_pattern)
  have split: "web_url = pre @ m @ drop 11 t" using w m11 by simp
  have pid: "product_id d m" unfolding m11 using mt by (rule match_is_product_id)
  have left: "\<forall>pre' ident' post'. web_url = pre' @ ident' @ post' \<and> product_id d ident'
            \<longrightarrow> length pre \<le> length pre'"
    using least match_product_id by blast
  have conv: "convert_to_app_link d web_url = deep_link_prefix @ m"
    using Some by (simp add: convert_to_app_link_def)
  from split pid left conv show ?thesis by blast
qed

text \<open>
  Claim C5, as amended, at the first configured URL and at a URL with no
  identifier.
\<close>

theorem convert_to_app_link_E_identifier_witness:
  "(\<exists>pre ident post. example_url = pre @ ident @ post \<and> product_id ascii_digit ident) \<and>
   (\<exists>pre ident post. example_url = pre @ ident @ post \<and> product_id ascii_digit ident \<and>
      (\<forall>pre' ident' post'. example_url = pre' @ ident' @ post' \<and> product_id ascii_digit ident'
         \<longrightarrow> length pre \<le> length pre') \<and>
      convert_to_app_link ascii_digit example_url = deep_link_prefix @ ident) \<and>
   (\<nexists>pre ident post. no_id_url = pre @ ident @ post \<and> product_id ascii_digit ident) \<and>
   convert_to_app_link ascii_digit no_id_url = no_id_url"
proof -
  have "example_url = py ''https://www.uniqlo.com/id/id/products/'' @ py ''E479169-000'' @
          py ''?colorCode=COL09&sizeCode=SMA007''"
    by (simp add: example_url_def py_def)
  moreover have "product_id ascii_digit (py ''E479169-000'')"
    by (simp add: product_id_def py_def ascii_digit_def)
  ultimately have h1: "\<exists>pre ident post. example_url = pre @ ident @ post \<and> product_id ascii_digit ident"
    by blast
  have "69 \<notin> set no_id_url" by (simp add: no_id_url_def py_def)
  then have h2: "\<nexists>pre ident post. no_id_url = pre @ ident @ post \<and> product_id ascii_digit ident"
    by (rule no_E_no_product_id)
  from h1 h2 convert_to_app_link_E_identifier [of example_url ascii_digit]
    convert_to_app_link_E_identifier [of no_id_url ascii_digit]
  show ?thesis by blast
qed

text \<open>
  Claim C5 as stated fails: \<^verbatim>\<open>A479169-000\<close> has the shape of one uppercase
  letter, six digits, a hyphen and three digits, and the URL that contains it is returned
  unchanged, not as the deep link of that identifier.
\<close>

theorem convert_to_app_link_other_letter_counterexample:
  "other_letter_url = py ''https://www.uniqlo.com/id/id/products/'' @ py ''A479169-000'' @ [] \<and>
   spec_identifier ascii_digit (py ''A479169-000'') \<and>
   convert_to_app_link ascii_digit other_letter_url = other_letter_url \<and>
   convert_to_app_link ascii_digit other_letter_url \<noteq> deep_link_prefix @ py ''A479169-000''"
  by (simp add: other_letter_url_def spec_identifier_def convert_to_app_link_def
      product_id_pattern_atoms py_def ascii_digit_def deep_link_prefix_def)

section \<open>The extraction\<close>

lemma strip_examples:
  "strip (py '' 120 '') = py ''120''" "strip (py ''90'') = py ''90''" "strip (py '' 75'') = py ''75''"
  by (simp_all add: strip_def py_def isspace_def)

lemma check_loaded_two:
  assumes "driver u = loaded title (e0 # e1 # rest)"
    and "element_text e0 = Inr text0" and "element_text e1 = Inr text1"
  shows "check_specific_item_price_selenium u driver =
     (if strip text0 \<noteq> [] \<and> strip text1 \<noteq> []
      then \<lparr>name = title, current_price = strip text1, is_on_sale = True,
            original_price = Some (strip text0), url = u\<rparr>
      else \<lparr>name = title, current_price = py ''Price not found'', is_on_sale = False,
            original_price = None, url = u\<rparr>, [])"
  using assms
  by (simp add: check_specific_item_price_selenium_def check_try_def loaded_def readable_def
      initial_details_def)

lemma check_loaded_one:
  assumes "driver u = loaded title [e0]" and "element_text e0 = Inr text0"
  shows "check_specific_item_price_selenium u driver =
     (\<lparr>name = title, current_price = strip text0, is_on_sale = False,
       original_price = None, url = u\<rparr>, [])"
  using assms
  by (simp add: check_specific_item_price_selenium_def check_try_def loaded_def readable_def
      initial_details_def)

lemma check_loaded_none:
  assumes "driver u = loaded title []"
  shows "check_specific_item_price_selenium u driver =
     (\<lparr>name = title, current_price = py ''Price not found'', is_on_sale = False,
       original_price = None, url = u\<rparr>, [])"
  using assms
  by (simp add: check_specific_item_price_selenium_def check_try_def loaded_def readable_def
      initial_details_def)

text \<open>
  Claim C1, as amended: when the page loads, its title is read and the price query
  yields exactly two elements whose stripped texts are both non-empty, the snapshot
  returned has \<^verbatim>\<open>is_on_sale\<close> true, \<^verbatim>\<open>original_price\<close> the stripped text of the first
  element and \<^verbatim>\<open>current_price\<close> the stripped text of the second.
\<close>

theorem sale_state_stripped_texts:
  assumes "driver u = loaded title [readable text0, readable text1]"
    and "strip text0 \<noteq> []" and "strip text1 \<noteq> []"
  shows "fst (check_specific_item_price_selenium u driver) =
     \<lparr>name = title, current_price = strip text1, is_on_sale = True,
      original_price = Some (strip text0), url = u\<rparr>"
  using assms check_loaded_two [of driver u title "readable text0" "readable text1" "[]" text0 text1]
  by (simp add: readable_def)

text \<open>
  Claim C1, as amended, at a page whose first price text is padded with spaces.
\<close>

theorem sale_state_stripped_texts_witness:
  "padded_sale_driver item_url = loaded (py ''Shirt'') [readable (py '' 120 ''), readable (py ''90'')] \<and>
   strip (py '' 120 '') \<noteq> [] \<and> strip (py ''90'') \<noteq> [] \<and>
   fst (check_specific_item_price_selenium item_url padded_sale_driver) =
     \<lparr>name = py ''Shirt'', current_price = py ''90'', is_on_sale = True,
      original_price = Some (py ''120''), url = item_url\<rparr>"
proof -
  have d: "padded_sale_driver item_url =
      loaded (py ''Shirt'') [readable (py '' 120 ''), readable (py ''90'')]"
    by (simp add: padded_sale_driver_def)
  have n: "strip (py '' 120 '') \<noteq> []" "strip (py ''90'') \<noteq> []"
    unfolding strip_examples by (simp_all add: py_def)
  from sale_state_stripped_texts
      [of padded_sale_driver item_url "py ''Shirt''" "py '' 120 ''" "py ''90''"] d n
  show ?thesis
    by (simp add: strip_examples)
qed

text \<open>
  Claim C1 as stated fails: with the price texts \<^verbatim>\<open>" 120 "\<close> and \<^verbatim>\<open>"90"\<close>, both
  non-empty when stripped, \<^verbatim>\<open>original_price\<close> is \<^verbatim>\<open>"120"\<close>, which is not the text of
  the first element.
\<close>

theorem sale_state_unstripped_counterexample:
  "padded_sale_driver item_url = loaded (py ''Shirt'') [readable (py '' 120 ''), readable (py ''90'')] \<and>
   strip (py '' 120 '') \<noteq> [] \<and> strip (py ''90'') \<noteq> [] \<and>
   original_price (fst (check_specific_item_price_selenium item_url padded_sale_driver)) = Some (py ''120'') \<and>
   original_price (fst (check_specific_item_price_selenium item_url padded_sale_driver)) \<noteq> Some (py '' 120 '')"
  by (simp add: check_specific_item_price_selenium_def check_try_def padded_sale_driver_def
      loaded_def readable_def initial_details_def strip_examples)
    (simp add: py_def)

text \<open>
  Claim C2, as amended: when the price query yields exactly one element, the snapshot
  has \<^verbatim>\<open>current_price\<close> the stripped text of that element, \<^verbatim>\<open>is_on_sale\<close> false and
  no \<^verbatim>\<open>original_price\<close>; when it yields no element, or two elements one of whose
  stripped texts is empty, the snapshot keeps the placeholder price, with
  \<^verbatim>\<open>is_on_sale\<close> false.
\<close>

theorem regular_and_fallback_state:
  "(driver u = loaded title [readable text0] \<longrightarrow>
      fst (check_specific_item_price_selenium u driver) =
        \<lparr>name = title, current_price = strip text0, is_on_sale = False,
         original_price = None, url = u\<rparr>) \<and>
   (driver u = loaded title [] \<or>
    driver u = loaded title [readable text0, readable text1] \<and> (strip text0 = [] \<or> strip text1 = [])
    \<longrightarrow>
      fst (check_specific_item_price_selenium u driver) =
        \<lparr>name = title, current_price = py ''Price not found'', is_on_sale = False,
         original_price = None, url = u\<rparr>)"
proof -
  have e: "element_text (readable t) = Inr t" for t by (simp add: readable_def)
  show ?thesis
    using check_loaded_one [of driver u title "readable text0" text0]
      check_loaded_none [of driver u title]
      check_loaded_two [of driver u title "readable text0" "readable text1" "[]" text0 text1]
    by (auto simp: e)
qed

lemma strip_examples2:
  "strip (py ''120'') = py ''120''" "strip (py '' '') = []"
  by (simp_all add: strip_def py_def isspace_def)

text \<open>
  Claim C2, as amended, at a page with one padded price text, at a page with no price
  element and at a page whose second price text is blank.
\<close>

theorem regular_and_fallback_state_witness:
  "padded_regular_driver item_url = loaded (py ''Shirt'') [readable (py '' 75'')] \<and>
   fst (check_specific_item_price_selenium item_url padded_regular_driver) =
     \<lparr>name = py ''Shirt'', current_price = py ''75'', is_on_sale = False,
      original_price = None, url = item_url\<rparr> \<and>
   no_price_driver item_url = loaded (py ''Shirt'') [] \<and>
   fst (check_specific_item_price_selenium item_url no_price_driver) =
     \<lparr>name = py ''Shirt'', current_price = py ''Price not found'', is_on_sale = False,
      original_price = None, url = item_url\<rparr> \<and>
   blank_price_driver item_url = loaded (py ''Shirt'') [readable (py ''120''), readable (py '' '')] \<and>
   strip (py '' '') = [] \<and>
   fst (check_specific_item_price_selenium item_url blank_price_driver) =
     \<lparr>name = py ''Shirt'', current_price = py ''Price not found'', is_on_sale = False,
      original_price = None, url = item_url\<rparr>"
  using regular_and_fallback_state
      [of padded_regular_driver item_url "py ''Shirt''" "py '' 75''" "py ''''"]
    regular_and_fallback_state
      [of no_price_driver item_url "py ''Shirt''" "py ''''" "py ''''"]
    regular_and_fallback_state
      [of blank_price_driver item_url "py ''Shirt''" "py ''120''" "py '' ''"]
  by (simp add: padded_regular_driver_def no_price_driver_def blank_price_driver_def
      strip_examples strip_examples2)

text \<open>
  Claim C2 as stated fails: with the single price text \<^verbatim>\<open>" 75"\<close>,
  \<^verbatim>\<open>current_price\<close> is \<^verbatim>\<open>"75"\<close>, which is not the text of the element.
\<close>

theorem regular_state_unstripped_counterexample:
  "padded_regular_driver item_url = loaded (py ''Shirt'') [readable (py '' 75'')] \<and>
   current_price (fst (check_specific_item_price_selenium item_url padded_regular_driver)) = py ''75'' \<and>
   current_price (fst (check_specific_item_price_selenium item_url padded_regular_driver)) \<noteq> py '' 75''"
  by (simp add: check_specific_item_price_selenium_def check_try_def padded_regular_driver_def
      loaded_def readable_def initial_details_def strip_examples)
    (simp add: py_def)

lemma fail_get:
  "get_raises (driver u) = Some e \<Longrightarrow>
     check_specific_item_price_selenium u driver = failure_result u (py ''Name not found'') e"
  by (simp add: check_specific_item_price_selenium_def check_try_def initial_details_def
      failure_result_def)

lemma fail_title_wait:
  "get_raises (driver u) = None \<Longrightarrow> title_wait (driver u) = Inl e \<Longrightarrow>
     check_specific_item_price_selenium u driver = failure_result u (py ''Name not found'') e"
  by (simp add: check_specific_item_price_selenium_def check_try_def initial_details_def
      failure_result_def)

lemma fail_title_text:
  "get_raises (driver u) = None \<Longrightarrow> title_wait (driver u) = Inr title_element \<Longrightarrow>
   element_text title_element = Inl e \<Longrightarrow>
     check_specific_item_price_selenium u driver = failure_result u (py ''Name not found'') e"
  by (simp add: check_specific_item_price_selenium_def check_try_def initial_details_def
      failure_result_def)

lemma fail_find_elements:
  "get_raises (driver u) = None \<Longrightarrow> title_wait (driver u) = Inr title_element \<Longrightarrow>
   element_text title_element = Inr title \<Longrightarrow> find_elements (driver u) = Inl e \<Longrightarrow>
     check_specific_item_price_selenium u driver = failure_result u title e"
  by (simp add: check_specific_item_price_selenium_def check_try_def initial_details_def
      failure_result_def)

lemma fail_first_price_text:
  "get_raises (driver u) = None \<Longrightarrow> title_wait (driver u) = Inr title_element \<Longrightarrow>
   element_text title_element = Inr title \<Longrightarrow> find_elements (driver u) = Inr price_elements \<Longrightarrow>
   1 \<le> length price_elements \<Longrightarrow> element_text (price_elements ! 0) = Inl e \<Longrightarrow>
     check_specific_item_price_selenium u driver = failure_result u title e"
  by (cases "2 \<le> length price_elements")
    (auto simp: check_specific_item_price_selenium_def check_try_def initial_details_def
      failure_result_def)

lemma fail_second_price_text:
  "get_raises (driver u) = None \<Longrightarrow> title_wait (driver u) = Inr title_element \<Longrightarrow>
   element_text title_element = Inr title \<Longrightarrow> find_elements (driver u) = Inr price_elements \<Longrightarrow>
   2 \<le> length price_elements \<Longrightarrow> element_text (price_elements ! 0) = Inr text0 \<Longrightarrow>
   element_text (price_elements ! 1) = Inl e \<Longrightarrow>
     check_specific_item_price_selenium u driver = failure_result u title e"
  by (simp add: check_specific_item_price_selenium_def check_try_def initial_details_def
      failure_result_def)

text \<open>
  Claim C3, as amended: whatever call of the page handle fails, the function raises
  nothing and returns a snapshot with the placeholder price, \<^verbatim>\<open>is_on_sale\<close> false, no
  \<^verbatim>\<open>original_price\<close> and the input URL, and prints one line. The calls are, in order:
  the navigation, the wait for the title, the read of the title text, the price query,
  the read of the first price text (made when there is at least one price element) and
  the read of the second (made when there are at least two). The name of the snapshot is
  the placeholder when one of the first three fails, and the title read when a later one
  fails.
\<close>

theorem page_failure_returns_placeholder_prices:
  "(get_raises (driver u) = Some e \<longrightarrow>
      check_specific_item_price_selenium u driver = failure_result u (py ''Name not found'') e) \<and>
   (get_raises (driver u) = None \<and> title_wait (driver u) = Inl e \<longrightarrow>
      check_specific_item_price_selenium u driver = failure_result u (py ''Name not found'') e) \<and>
   (get_raises (driver u) = None \<and> title_wait (driver u) = Inr title_element \<and>
    element_text title_element = Inl e \<longrightarrow>
      check_specific_item_price_selenium u driver = failure_result u (py ''Name not found'') e) \<and>
   (get_raises (driver u) = None \<and> title_wait (driver u) = Inr title_element \<and>
    element_text title_element = Inr title \<and> find_elements (driver u) = Inl e \<longrightarrow>
      check_specific_item_price_selenium u driver = failure_result u title e) \<and>
   (get_raises (driver u) = None \<and> title_wait (driver u) = Inr title_element \<and>
    element_text title_element = Inr title \<and> find_elements (driver u) = Inr price_elements \<and>
    1 \<le> length price_elements \<and> element_text (price_elements ! 0) = Inl e \<longrightarrow>
      check_specific_item_price_selenium u driver = failure_result u title e) \<and>
   (get_raises (driver u) = None \<and> title_wait (driver u) = Inr title_element \<and>
    element_text title_element = Inr title \<and> find_elements (driver u) = Inr price_elements \<and>
    2 \<le> length price_elements \<and> element_text (price_elements ! 0) = Inr text0 \<and>
    element_text (price_elements ! 1) = Inl e \<longrightarrow>
      check_specific_item_price_selenium u driver = failure_result u title e)"
  using fail_get [of driver u e] fail_title_wait [of driver u e]
    fail_title_text [of driver u title_element e]
    fail_find_elements [of driver u title_element title e]
    fail_first_price_text [of driver u title_element title price_elements e]
    fail_second_price_text [of driver u title_element title price_elements text0 e]
  by blast

text \<open>
  Claim C3, as amended, at one failing driver for each of the six calls; the driver
  whose wait for the title times out shows two prices, and the snapshot is not on
  sale.
\<close>

theorem page_failure_returns_placeholder_prices_witness:
  "check_specific_item_price_selenium item_url unreachable_driver =
     failure_result item_url (py ''Name not found'') (WebDriverException (py ''unreachable'')) \<and>
   check_specific_item_price_selenium item_url title_timeout_driver =
     failure_result item_url (py ''Name not found'') (WebDriverException (py ''timeout'')) \<and>
   check_specific_item_price_selenium item_url unreadable_title_driver =
     failure_result item_url (py ''Name not found'') (WebDriverException (py ''stale'')) \<and>
   check_specific_item_price_selenium item_url failing_query_driver =
     failure_result item_url (py ''Shirt'') (WebDriverException (py ''stale'')) \<and>
   check_specific_item_price_selenium item_url unreadable_price_driver =
     failure_result item_url (py ''Shirt'') (WebDriverException (py ''stale'')) \<and>
   check_specific_item_price_selenium item_url unreadable_second_price_driver =
     failure_result item_url (py ''Shirt'') (WebDriverException (py ''stale'')) \<and>
   \<not> is_on_sale (fst (check_specific_item_price_selenium item_url title_timeout_driver)) \<and>
   current_price (fst (check_specific_item_price_selenium item_url title_timeout_driver)) =
     py ''Price not found''"
proof -
  let ?stale = "WebDriverException (py ''stale'')"
  have a: "get_raises (unreachable_driver item_url) = Some (WebDriverException (py ''unreachable''))"
    by (simp add: unreachable_driver_def)
  have b: "get_raises (title_timeout_driver item_url) = None \<and>
      title_wait (title_timeout_driver item_url) = Inl (WebDriverException (py ''timeout''))"
    by (simp add: title_timeout_driver_def)
  have c: "get_raises (unreadable_title_driver item_url) = None \<and>
      title_wait (unreadable_title_driver item_url) = Inr (Element (Inl ?stale)) \<and>
      element_text (Element (Inl ?stale)) = Inl ?stale"
    by (simp add: unreadable_title_driver_def)
  have d: "get_raises (failing_query_driver item_url) = None \<and>
      title_wait (failing_query_driver item_url) = Inr (readable (py ''Shirt'')) \<and>
      element_text (readable (py ''Shirt'')) = Inr (py ''Shirt'') \<and>
      find_elements (failing_query_driver item_url) = Inl ?stale"
    by (simp add: failing_query_driver_def readable_def)
  have e: "get_raises (unreadable_price_driver item_url) = None \<and>
      title_wait (unreadable_price_driver item_url) = Inr (readable (py ''Shirt'')) \<and>
      element_text (readable (py ''Shirt'')) = Inr (py ''Shirt'') \<and>
      find_elements (unreadable_price_driver item_url) = Inr [Element (Inl ?stale)] \<and>
      1 \<le> length [Element (Inl ?stale)] \<and>
      element_text ([Element (Inl ?stale)] ! 0) = Inl ?stale"
    by (simp add: unreadable_price_driver_def loaded_def readable_def)
  have f: "get_raises (unreadable_second_price_driver item_url) = None \<and>
      title_wait (unreadable_second_price_driver item_url) = Inr (readable (py ''Shirt'')) \<and>
      element_text (readable (py ''Shirt'')) = Inr (py ''Shirt'') \<and>
      find_elements (unreadable_second_price_driver item_url) =
        Inr [readable (py ''120''), Element (Inl ?stale)] \<and>
      2 \<le> length [readable (py ''120''), Element (Inl ?stale)] \<and>
      element_text ([readable (py ''120''), Element (Inl ?stale)] ! 0) = Inr (py ''120'') \<and>
      element_text ([readable (py ''120''), Element (Inl ?stale)] ! 1) = Inl ?stale"
    by (simp add: unreadable_second_price_driver_def loaded_def readable_def)
  have r1: "check_specific_item_price_selenium item_url unreachable_driver =
     failure_result item_url (py ''Name not found'') (WebDriverException (py ''unreachable''))"
    using a page_failure_returns_placeholder_prices
      [of unreachable_driver item_url "WebDriverException (py ''unreachable'')"]
    by blast
  have r2: "check_specific_item_price_selenium item_url title_timeout_driver =
     failure_result item_url (py ''Name not found'') (WebDriverException (py ''timeout''))"
    using b page_failure_returns_placeholder_prices
      [of title_timeout_driver item_url "WebDriverException (py ''timeout'')"]
    by blast
  have r3: "check_specific_item_price_selenium item_url unreadable_title_driver =
     failure_result item_url (py ''Name not found'') ?stale"
    using c page_failure_returns_placeholder_prices
      [of unreadable_title_driver item_url ?stale "Element (Inl ?stale)"]
    by blast
  have r4: "check_specific_item_price_selenium item_url failing_query_driver =
     failure_result item_url (py ''Shirt'') ?stale"
    using d page_failure_returns_placeholder_prices
      [of failing_query_driver item_url ?stale "readable (py ''Shirt'')" "py ''Shirt''"]
    by blast
  have r5: "check_specific_item_price_selenium item_url unreadable_price_driver =
     failure_result item_url (py ''Shirt'') ?stale"
    using e page_failure_returns_placeholder_prices
      [of unreadable_price_driver item_url ?stale "readable (py ''Shirt'')" "py ''Shirt''"
          "[Element (Inl ?stale)]"]
    by blast
  have r6: "check_specific_item_price_selenium item_url unreadable_second_price_driver =
     failure_result item_url (py ''Shirt'') ?stale"
    using f page_failure_returns_placeholder_prices
      [of unreadable_second_price_driver item_url ?stale "readable (py ''Shirt'')" "py ''Shirt''"
          "[readable (py ''120''), Element (Inl ?stale)]" "py ''120''"]
    by blast
  have s: "\<not> is_on_sale (fst (check_specific_item_price_selenium item_url title_timeout_driver)) \<and>
     current_price (fst (check_specific_item_price_selenium item_url title_timeout_driver)) =
       py ''Price not found''"
    unfolding r2 by (simp add: failure_result_def)
  from r1 r2 r3 r4 r5 r6 s show ?thesis by blast
qed

text \<open>
  Claim C3 as stated fails: when the price query raises after the title is read, the
  snapshot returned has the name \<^verbatim>\<open>Shirt\<close>, not the placeholder name.
\<close>

theorem failure_keeps_title_counterexample:
  "get_raises (failing_query_driver item_url) = None \<and>
   title_wait (failing_query_driver item_url) = Inr (readable (py ''Shirt'')) \<and>
   find_elements (failing_query_driver item_url) = Inl (WebDriverException (py ''stale'')) \<and>
   name (fst (check_specific_item_price_selenium item_url failing_query_driver)) = py ''Shirt'' \<and>
   name (fst (check_specific_item_price_selenium item_url failing_query_driver)) \<noteq> py ''Name not found'' \<and>
   fst (check_specific_item_price_selenium item_url failing_query_driver) \<noteq> initial_details item_url"
  by (simp add: check_specific_item_price_selenium_def check_try_def failing_query_driver_def
      readable_def initial_details_def) (simp add: py_def)

lemma check_try_invariant:
  "(original_price (fst (check_try u driver (initial_details u))) \<noteq> None \<longleftrightarrow>
      is_on_sale (fst (check_try u driver (initial_details u)))) \<and>
   url (fst (check_try u driver (initial_details u))) = u"
  by (simp add: check_try_def Let_def initial_details_def split: option.splits sum.splits)

lemma fst_check:
  "fst (check_specific_item_price_selenium u driver) = fst (check_try u driver (initial_details u))"
  by (simp add: check_specific_item_price_selenium_def split: prod.splits option.splits)

text \<open>
  Claim C6. Every snapshot the extraction returns, whatever the driver does, has an
  \<^verbatim>\<open>original_price\<close> if and only if it is on sale, and its \<^verbatim>\<open>url\<close> is the URL given.
\<close>

theorem snapshot_invariant:
  "(original_price (fst (check_specific_item_price_selenium u driver)) \<noteq> None \<longleftrightarrow>
      is_on_sale (fst (check_specific_item_price_selenium u driver))) \<and>
   url (fst (check_specific_item_price_selenium u driver)) = u"
  unfolding fst_check by (rule check_try_invariant)

text \<open>
  Claim C6 at a page with two prices (on sale) and at a failing price query (not on
  sale).
\<close>

theorem snapshot_invariant_witness:
  "(original_price (fst (check_specific_item_price_selenium item_url two_prices_driver)) \<noteq> None \<longleftrightarrow>
      is_on_sale (fst (check_specific_item_price_selenium item_url two_prices_driver))) \<and>
   url (fst (check_specific_item_price_selenium item_url two_prices_driver)) = item_url \<and>
   is_on_sale (fst (check_specific_item_price_selenium item_url two_prices_driver)) \<and>
   \<not> is_on_sale (fst (check_specific_item_price_selenium item_url failing_query_driver))"
  using snapshot_invariant [of item_url two_prices_driver]
  by (simp add: check_specific_item_price_selenium_def check_try_def two_prices_driver_def
      failing_query_driver_def loaded_def readable_def initial_details_def Let_def
      strip_examples strip_examples2)
    (simp add: py_def)

text \<open>
  Claim C10. When the price query yields three or more elements, the result is the one
  for the first two elements alone, whatever the further elements are; if the stripped
  texts of the first two are non-empty, the snapshot is on sale with \<^verbatim>\<open>original_price\<close>
  from the first and \<^verbatim>\<open>current_price\<close> from the second.
\<close>

theorem further_price_elements_ignored:
  assumes "driver u = loaded title (e0 # e1 # rest)" and "rest \<noteq> []"
    and "driver' u = loaded title [e0, e1]"
  shows "check_specific_item_price_selenium u driver = check_specific_item_price_selenium u driver' \<and>
     (element_text e0 = Inr text0 \<and> element_text e1 = Inr text1 \<and>
      strip text0 \<noteq> [] \<and> strip text1 \<noteq> [] \<longrightarrow>
        fst (check_specific_item_price_selenium u driver) =
          \<lparr>name = title, current_price = strip text1, is_on_sale = True,
           original_price = Some (strip text0), url = u\<rparr>)"
proof -
  have "check_try u driver (initial_details u) = check_try u driver' (initial_details u)"
    using assms by (simp add: check_try_def loaded_def readable_def Let_def split: sum.splits)
  then have "check_specific_item_price_selenium u driver = check_specific_item_price_selenium u driver'"
    by (simp add: check_specific_item_price_selenium_def)
  moreover have "element_text e0 = Inr text0 \<and> element_text e1 = Inr text1 \<and>
      strip text0 \<noteq> [] \<and> strip text1 \<noteq> [] \<longrightarrow>
        fst (check_specific_item_price_selenium u driver) =
          \<lparr>name = title, current_price = strip text1, is_on_sale = True,
           original_price = Some (strip text0), url = u\<rparr>"
    using check_loaded_two [of driver u title e0 e1 rest text0 text1] assms(1) by simp
  ultimately show ?thesis by blast
qed

text \<open>
  Claim C10 at a page with three price elements, the third of which cannot be read.
\<close>

theorem further_price_elements_ignored_witness:
  "three_prices_driver item_url =
     loaded (py ''Shirt'')
       (readable (py ''120'') # readable (py ''90'') #
        [Element (Inl (WebDriverException (py ''stale'')))]) \<and>
   [Element (Inl (WebDriverException (py ''stale'')))] \<noteq> [] \<and>
   two_prices_driver item_url = loaded (py ''Shirt'') [readable (py ''120''), readable (py ''90'')] \<and>
   check_specific_item_price_selenium item_url three_prices_driver =
     check_specific_item_price_selenium item_url two_prices_driver \<and>
   fst (check_specific_item_price_selenium item_url three_prices_driver) =
     \<lparr>name = py ''Shirt'', current_price = py ''90'', is_on_sale = True,
      original_price = Some (py ''120''), url = item_url\<rparr>"
proof -
  have a: "three_prices_driver item_url =
     loaded (py ''Shirt'')
       (readable (py ''120'') # readable (py ''90'') #
        [Element (Inl (WebDriverException (py ''stale'')))])"
    by (simp add: three_prices_driver_def)
  have b: "[Element (Inl (WebDriverException (py ''stale'')))] \<noteq> []" by simp
  have c: "two_prices_driver item_url = loaded (py ''Shirt'') [readable (py ''120''), readable (py ''90'')]"
    by (simp add: two_prices_driver_def)
  have n: "strip (py ''120'') \<noteq> []" "strip (py ''90'') \<noteq> []"
    unfolding strip_examples strip_examples2 by (simp_all add: py_def)
  have e: "element_text (readable t) = Inr t" for t by (simp add: readable_def)
  note r = further_price_elements_ignored
    [of three_prices_driver item_url "py ''Shirt''" "readable (py ''120'')" "readable (py ''90'')"
        "[Element (Inl (WebDriverException (py ''stale'')))]" two_prices_driver
        "py ''120''" "py ''90''", OF a b c]
  from r n e have "fst (check_specific_item_price_selenium item_url three_prices_driver) =
      \<lparr>name = py ''Shirt'', current_price = strip (py ''90''), is_on_sale = True,
       original_price = Some (strip (py ''120'')), url = item_url\<rparr>"
    by blast
  then have "fst (check_specific_item_price_selenium item_url three_prices_driver) =
      \<lparr>name = py ''Shirt'', current_price = py ''90'', is_on_sale = True,
       original_price = Some (py ''120''), url = item_url\<rparr>"
    unfolding strip_examples strip_examples2 .
  with a b c r show ?thesis by blast
qed

lemma check_two_prices_driver:
  "fst (check_specific_item_price_selenium u two_prices_driver) =
     \<lparr>name = py ''Shirt'', current_price = py ''90'', is_on_sale = True,
      original_price = Some (py ''120''), url = u\<rparr>"
proof -
  have e: "element_text (readable t) = Inr t" for t by (simp add: readable_def)
  have "strip (py ''120'') \<noteq> [] \<and> strip (py ''90'') \<noteq> []"
    unfolding strip_examples strip_examples2 by (simp add: py_def)
  then show ?thesis
    using check_loaded_two [of two_prices_driver u "py ''Shirt''" "readable (py ''120'')"
        "readable (py ''90'')" "[]" "py ''120''" "py ''90''"]
    by (simp add: two_prices_driver_def e strip_examples strip_examples2)
qed

section \<open>The notifier\<close>

text \<open>
  Claim C7. When the bot token or the chat target is the placeholder value, the
  function issues no HTTP POST, prints the diagnostic line and returns without
  raising, whatever the message and the HTTP library.
\<close>

theorem placeholder_credentials_skip_post:
  assumes "TELEGRAM_BOT_TOKEN cfg = py ''YOUR_BOT_TOKEN_HERE'' \<or>
           TELEGRAM_CHAT_ID cfg = py ''YOUR_CHAT_ID_HERE''"
  shows "posts (fst (send_telegram_notification cfg post message)) = [] \<and>
     fst (send_telegram_notification cfg post message) =
       [Print (py ''--- TELEGRAM ERROR: Please set your TELEGRAM_BOT_TOKEN and TELEGRAM_CHAT_ID. ---'')] \<and>
     snd (send_telegram_notification cfg post message) = None"
  using assms by (auto simp: send_telegram_notification_def)

text \<open>
  Claim C7 at the configuration of the source file.
\<close>

theorem placeholder_credentials_skip_post_witness:
  "(TELEGRAM_BOT_TOKEN source_config = py ''YOUR_BOT_TOKEN_HERE'' \<or>
    TELEGRAM_CHAT_ID source_config = py ''YOUR_CHAT_ID_HERE'') \<and>
   posts (fst (send_telegram_notification source_config ok_post (py ''hello''))) = [] \<and>
   fst (send_telegram_notification source_config ok_post (py ''hello'')) =
     [Print (py ''--- TELEGRAM ERROR: Please set your TELEGRAM_BOT_TOKEN and TELEGRAM_CHAT_ID. ---'')] \<and>
   snd (send_telegram_notification source_config ok_post (py ''hello'')) = None"
proof -
  have "TELEGRAM_BOT_TOKEN source_config = py ''YOUR_BOT_TOKEN_HERE'' \<or>
    TELEGRAM_CHAT_ID source_config = py ''YOUR_CHAT_ID_HERE''"
    by (simp add: source_config_def)
  from this placeholder_credentials_skip_post [OF this, of ok_post "py ''hello''"]
  show ?thesis by blast
qed

section \<open>The run\<close>

lemma notifier_calls_append:
  "notifier_calls (xs @ ys) = notifier_calls xs @ notifier_calls ys"
  by (induction xs rule: notifier_calls.induct) simp_all

lemma send_try_no_notify: "notifier_calls (fst (send_try post api_url pl)) = []"
  by (simp add: send_try_def split: sum.splits option.splits)

lemma send_no_notify:
  "notifier_calls (fst (send_telegram_notification cfg post message)) = []"
proof -
  have "notifier_calls (fst (case send_try post api_url pl of
              (evs, None) \<Rightarrow> (evs, None)
            | (evs, Some e) \<Rightarrow>
                (if is_RequestException e
                 then (evs @ [Print (py ''--- ERROR sending notification: '' @ str_exn e @ py '' ---'')],
                       None)
                 else (evs, Some e)))) = []" for api_url pl
    using send_try_no_notify [of post api_url pl]
    by (cases "send_try post api_url pl") (simp add: notifier_calls_append split: option.splits)
  then show ?thesis
    by (simp add: send_telegram_notification_def Let_def)
qed

lemma check_no_notify:
  "notifier_calls (snd (check_specific_item_price_selenium u driver)) = []"
  by (simp add: check_specific_item_price_selenium_def split: prod.splits option.splits)

lemma main_loop_no_notify:
  "notifier_calls (snd (main_loop browser n i urls sale_items)) = []"
proof (induction urls arbitrary: i sale_items)
  case Nil
  show ?case by simp
next
  case (Cons u urls)
  show ?case
    by (simp add: Let_def case_prod_unfold notifier_calls_append check_no_notify Cons.IH)
qed

lemma main_loop_sale_items:
  "fst (main_loop browser n i urls sale_items) =
     sale_items @ filter is_on_sale (extracted browser i urls)"
proof (induction urls arbitrary: i sale_items)
  case Nil
  show ?case by simp
next
  case (Cons u urls)
  show ?case
    by (simp add: Let_def case_prod_unfold Cons.IH)
qed

lemma posts_append: "posts (xs @ ys) = posts xs @ posts ys"
  by (induction xs rule: posts.induct) simp_all

lemma send_try_posts: "posts (fst (send_try post api_url pl)) = [(api_url, pl)]"
  by (simp add: send_try_def split: sum.splits option.splits)

lemma send_posts:
  "posts (fst (send_telegram_notification cfg post message)) =
     (if configured cfg then [telegram_post cfg message] else [])"
proof (cases "configured cfg")
  case False
  then show ?thesis
    by (auto simp: send_telegram_notification_def configured_def)
next
  case True
  have "posts (fst (case send_try post api_url pl of
              (evs, None) \<Rightarrow> (evs, None)
            | (evs, Some e) \<Rightarrow>
                (if is_RequestException e
                 then (evs @ [Print (py ''--- ERROR sending notification: '' @ str_exn e @ py '' ---'')],
                       None)
                 else (evs, Some e)))) = [(api_url, pl)]" for api_url pl
    using send_try_posts [of post api_url pl]
    by (cases "send_try post api_url pl") (simp add: posts_append split: option.splits)
  with True show ?thesis
    by (simp add: send_telegram_notification_def Let_def configured_def telegram_post_def)
qed

lemma check_no_posts:
  "posts (snd (check_specific_item_price_selenium u driver)) = []"
  by (simp add: check_specific_item_price_selenium_def split: prod.splits option.splits)

lemma main_loop_no_posts:
  "posts (snd (main_loop browser n i urls sale_items)) = []"
proof (induction urls arbitrary: i sale_items)
  case Nil
  show ?case by simp
next
  case (Cons u urls)
  show ?case
    by (simp add: Let_def case_prod_unfold posts_append check_no_posts Cons.IH)
qed

lemma main_loop_report:
  "fst (main_loop browser (length urls) 0 urls []) = sale_report browser urls"
  by (simp add: main_loop_sale_items sale_report_def)

lemma sale_report_empty:
  "sale_report browser urls = [] \<longleftrightarrow> \<not> (\<exists>s \<in> set (extracted browser 0 urls). is_on_sale s)"
  by (simp add: sale_report_def filter_empty_conv)

lemma main_no_sale:
  assumes "sale_report browser (PRODUCT_URLS cfg) = []"
  shows "notifier_calls (fst (main d cfg browser post)) = []"
    and "posts (fst (main d cfg browser post)) = []"
  using assms
  by (simp_all add: main_def Let_def case_prod_unfold main_loop_report notifier_calls_append
      posts_append main_loop_no_notify main_loop_no_posts)

lemma main_sale:
  assumes "sale_report browser (PRODUCT_URLS cfg) \<noteq> []"
  shows "\<exists>before. notifier_calls before = [] \<and> posts before = [] \<and>
           fst (main d cfg browser post) =
             before @ Notify (final_message d (sale_report browser (PRODUCT_URLS cfg))) #
             fst (send_telegram_notification cfg post
                    (final_message d (sale_report browser (PRODUCT_URLS cfg))))"
proof -
  let ?r = "sale_report browser (PRODUCT_URLS cfg)"
  let ?before = "snd (main_loop browser (length (PRODUCT_URLS cfg)) 0 (PRODUCT_URLS cfg) []) @
      [Quit, Print (nl @ py ''Found '' @ str_nat (length ?r) @
                    py '' item(s) on sale! Preparing summary notification...'')]"
  have "notifier_calls ?before = []"
    by (simp add: notifier_calls_append main_loop_no_notify)
  moreover have "posts ?before = []"
    by (simp add: posts_append main_loop_no_posts)
  moreover have "fst (main d cfg browser post) =
      ?before @ Notify (final_message d ?r) #
      fst (send_telegram_notification cfg post (final_message d ?r))"
    using assms by (simp add: main_def Let_def case_prod_unfold main_loop_report)
  ultimately show ?thesis by blast
qed

lemma main_calls:
  "notifier_calls (fst (main d cfg browser post)) =
     (if sale_report browser (PRODUCT_URLS cfg) = [] then []
      else [final_message d (sale_report browser (PRODUCT_URLS cfg))])"
proof (cases "sale_report browser (PRODUCT_URLS cfg) = []")
  case True
  then show ?thesis by (simp add: main_no_sale)
next
  case False
  from main_sale [OF False, of d post] obtain before where
    "notifier_calls before = []" and
    "fst (main d cfg browser post) =
       before @ Notify (final_message d (sale_report browser (PRODUCT_URLS cfg))) #
       fst (send_telegram_notification cfg post
              (final_message d (sale_report browser (PRODUCT_URLS cfg))))"
    by blast
  with False show ?thesis
    by (simp add: notifier_calls_append send_no_notify)
qed

lemma main_posts:
  "posts (fst (main d cfg browser post)) =
     (if sale_report browser (PRODUCT_URLS cfg) \<noteq> [] \<and> configured cfg
      then [telegram_post cfg (final_message d (sale_report browser (PRODUCT_URLS cfg)))]
      else [])"
proof (cases "sale_report browser (PRODUCT_URLS cfg) = []")
  case True
  then show ?thesis by (simp add: main_no_sale)
next
  case False
  from main_sale [OF False, of d post] obtain before where
    "posts before = []" and
    "fst (main d cfg browser post) =
       before @ Notify (final_message d (sale_report browser (PRODUCT_URLS cfg))) #
       fst (send_telegram_notification cfg post
              (final_message d (sale_report browser (PRODUCT_URLS cfg))))"
    by blast
  with False show ?thesis
    by (simp add: posts_append send_posts)
qed

lemma extracted_middle_sale:
  "extracted middle_sale_browser 0 (PRODUCT_URLS three_urls_config) =
     [\<lparr>name = py ''Shirt'', current_price = py ''Price not found'', is_on_sale = False,
       original_price = None, url = py ''https://www.uniqlo.com/id/id/products/E474437-000''\<rparr>,
      shirt_on_sale,
      \<lparr>name = py ''Shirt'', current_price = py ''Price not found'', is_on_sale = False,
       original_price = None, url = py ''https://www.uniqlo.com/id/id/products/E478913-000''\<rparr>]"
proof -
  have e: "element_text (readable t) = Inr t" for t by (simp add: readable_def)
  have two: "fst (check_specific_item_price_selenium u two_prices_driver) =
      \<lparr>name = py ''Shirt'', current_price = py ''90'', is_on_sale = True,
       original_price = Some (py ''120''), url = u\<rparr>" for u
  proof -
    have "strip (py ''120'') \<noteq> [] \<and> strip (py ''90'') \<noteq> []"
      unfolding strip_examples strip_examples2 by (simp add: py_def)
    then show ?thesis
      using check_loaded_two [of two_prices_driver u "py ''Shirt''" "readable (py ''120'')"
          "readable (py ''90'')" "[]" "py ''120''" "py ''90''"]
      by (simp add: two_prices_driver_def e strip_examples strip_examples2)
  qed
  have none: "fst (check_specific_item_price_selenium u no_price_driver) =
      \<lparr>name = py ''Shirt'', current_price = py ''Price not found'', is_on_sale = False,
       original_price = None, url = u\<rparr>" for u
    using check_loaded_none [of no_price_driver u "py ''Shirt''"]
    by (simp add: no_price_driver_def)
  show ?thesis
    by (simp add: three_urls_config_def middle_sale_browser_def two none shirt_on_sale_def
        item_url_def)
qed

lemma extracted_no_sale:
  "extracted no_sale_browser 0 (PRODUCT_URLS three_urls_config) =
     [\<lparr>name = py ''Shirt'', current_price = py ''Price not found'', is_on_sale = False,
       original_price = None, url = py ''https://www.uniqlo.com/id/id/products/E474437-000''\<rparr>,
      \<lparr>name = py ''Shirt'', current_price = py ''Price not found'', is_on_sale = False,
       original_price = None, url = py ''https://www.uniqlo.com/id/id/products/E479169-000''\<rparr>,
      \<lparr>name = py ''Shirt'', current_price = py ''Price not found'', is_on_sale = False,
       original_price = None, url = py ''https://www.uniqlo.com/id/id/products/E478913-000''\<rparr>]"
proof -
  have none: "fst (check_specific_item_price_selenium u no_price_driver) =
      \<lparr>name = py ''Shirt'', current_price = py ''Price not found'', is_on_sale = False,
       original_price = None, url = u\<rparr>" for u
    using check_loaded_none [of no_price_driver u "py ''Shirt''"]
    by (simp add: no_price_driver_def)
  show ?thesis
    by (simp add: three_urls_config_def no_sale_browser_def none)
qed

lemma report_middle_sale:
  "sale_report middle_sale_browser (PRODUCT_URLS three_urls_config) = [shirt_on_sale]"
  by (simp add: sale_report_def extracted_middle_sale shirt_on_sale_def)

lemma report_no_sale:
  "sale_report no_sale_browser (PRODUCT_URLS three_urls_config) = []"
  by (simp add: sale_report_def extracted_no_sale)

lemma configured_three_urls: "configured three_urls_config"
  by (simp add: configured_def three_urls_config_def py_def)

text \<open>
  Claim C4, as amended. The sale report is non-empty if and only if one of the
  snapshots extracted is on sale. \<^verbatim>\<open>main\<close> calls \<^verbatim>\<open>send_telegram_notification\<close> if
  and only if the report is non-empty, then exactly once, with the message built from
  the report: exactly the snapshots on sale, in the order of the URL list. The trace of
  the run is then what came before, with no call and no POST, the call, and what the
  call does. The HTTP POST is issued exactly once, with that message, when the report is
  non-empty and both credentials are configured, and not at all otherwise.
\<close>

theorem notifier_called_once_and_posts_when_configured:
  "(sale_report browser (PRODUCT_URLS cfg) \<noteq> [] \<longleftrightarrow>
      (\<exists>s \<in> set (extracted browser 0 (PRODUCT_URLS cfg)). is_on_sale s)) \<and>
   notifier_calls (fst (main d cfg browser post)) =
     (if sale_report browser (PRODUCT_URLS cfg) = [] then []
      else [final_message d (sale_report browser (PRODUCT_URLS cfg))]) \<and>
   (sale_report browser (PRODUCT_URLS cfg) \<noteq> [] \<longrightarrow>
      (\<exists>before. notifier_calls before = [] \<and> posts before = [] \<and>
         fst (main d cfg browser post) =
           before @ Notify (final_message d (sale_report browser (PRODUCT_URLS cfg))) #
           fst (send_telegram_notification cfg post
                  (final_message d (sale_report browser (PRODUCT_URLS cfg)))))) \<and>
   posts (fst (main d cfg browser post)) =
     (if sale_report browser (PRODUCT_URLS cfg) \<noteq> [] \<and> configured cfg
      then [telegram_post cfg (final_message d (sale_report browser (PRODUCT_URLS cfg)))]
      else [])"
  using sale_report_empty [of browser "PRODUCT_URLS cfg"] main_calls [of d cfg browser post]
    main_sale [of browser cfg d post] main_posts [of d cfg browser post]
  by blast

text \<open>
  Claim C4, as amended, with configured credentials: at three URLs of which only the
  second is on sale (one call, one POST), and at three URLs of which none is (no call,
  no POST).
\<close>

theorem notifier_called_once_and_posts_when_configured_witness:
  "sale_report middle_sale_browser (PRODUCT_URLS three_urls_config) = [shirt_on_sale] \<and>
   configured three_urls_config \<and>
   notifier_calls (fst (main ascii_digit three_urls_config middle_sale_browser ok_post)) =
     [final_message ascii_digit [shirt_on_sale]] \<and>
   (\<exists>before. notifier_calls before = [] \<and> posts before = [] \<and>
      fst (main ascii_digit three_urls_config middle_sale_browser ok_post) =
        before @ Notify (final_message ascii_digit [shirt_on_sale]) #
        fst (send_telegram_notification three_urls_config ok_post
               (final_message ascii_digit [shirt_on_sale]))) \<and>
   posts (fst (main ascii_digit three_urls_config middle_sale_browser ok_post)) =
     [telegram_post three_urls_config (final_message ascii_digit [shirt_on_sale])] \<and>
   sale_report no_sale_browser (PRODUCT_URLS three_urls_config) = [] \<and>
   notifier_calls (fst (main ascii_digit three_urls_config no_sale_browser ok_post)) = [] \<and>
   posts (fst (main ascii_digit three_urls_config no_sale_browser ok_post)) = []"
proof -
  note t1 = notifier_called_once_and_posts_when_configured
      [of middle_sale_browser three_urls_config ascii_digit ok_post, unfolded report_middle_sale]
  note t2 = notifier_called_once_and_posts_when_configured
      [of no_sale_browser three_urls_config ascii_digit ok_post, unfolded report_no_sale]
  from t1 t2 configured_three_urls report_middle_sale report_no_sale show ?thesis
    by simp
qed

text \<open>
  Claim C4 as stated fails for the send path in the sense of the HTTP delivery: with
  the configuration of the source file, whose credentials are the placeholders, and four
  items on sale, no POST is issued.
\<close>

theorem send_path_skipped_counterexample:
  "length (sale_report every_sale_browser (PRODUCT_URLS source_config)) = 4 \<and>
   TELEGRAM_BOT_TOKEN source_config = py ''YOUR_BOT_TOKEN_HERE'' \<and>
   posts (fst (main ascii_digit source_config every_sale_browser ok_post)) = []"
proof -
  have "length (sale_report every_sale_browser (PRODUCT_URLS source_config)) = 4"
    by (simp add: sale_report_def source_config_def every_sale_browser_def
        check_two_prices_driver)
  moreover have t: "TELEGRAM_BOT_TOKEN source_config = py ''YOUR_BOT_TOKEN_HERE''"
    by (simp add: source_config_def)
  moreover from t have "\<not> configured source_config"
    by (simp add: configured_def)
  then have "posts (fst (main ascii_digit source_config every_sale_browser ok_post)) = []"
    by (simp add: main_posts)
  ultimately show ?thesis by blast
qed

section \<open>The message\<close>

lemma details_loop_map:
  "details_loop d items message_details = message_details @ map (detail_line d) items"
  by (induction items arbitrary: message_details) simp_all

lemma join_Cons: "join sep (x # xs) = x @ concat (map (\<lambda>y. sep @ y) xs)"
  by (induction xs arbitrary: x) simp_all

lemma block_after_blank_line:
  assumes "original_price item \<noteq> None"
  shows "concat (map (\<lambda>y. nl @ y) ([] # block_lines d item)) = nl @ detail_line d item"
proof -
  from assms obtain p where "original_price item = Some p" by blast
  then show ?thesis
    by (simp add: block_lines_def detail_line_def bold_def strikethrough_def hyperlink_def
        py_def)
qed

lemma blocks_after_blank_lines:
  assumes "\<forall>item \<in> set items. original_price item \<noteq> None"
  shows "concat (map (\<lambda>y. nl @ y) (concat (map (\<lambda>item. [] # block_lines d item) items))) =
     concat (map (\<lambda>item. nl @ detail_line d item) items)"
  using assms
proof (induction items)
  case Nil
  show ?case by simp
next
  case (Cons item items)
  from Cons.prems have p: "original_price item \<noteq> None"
    and rest: "\<forall>item \<in> set items. original_price item \<noteq> None"
    by simp_all
  have "concat (map (\<lambda>y. nl @ y) (concat (map (\<lambda>item. [] # block_lines d item) (item # items)))) =
      concat (map (\<lambda>y. nl @ y) ([] # block_lines d item)) @
      concat (map (\<lambda>y. nl @ y) (concat (map (\<lambda>item. [] # block_lines d item) items)))"
    by simp
  also have "\<dots> = (nl @ detail_line d item) @ concat (map (\<lambda>item. nl @ detail_line d item) items)"
    unfolding block_after_blank_line [OF p] Cons.IH [OF rest] ..
  finally show ?case by simp
qed

text \<open>
  Claim C8. For a non-empty list of sale snapshots (each with its original price), the
  message is, line by line: the title, a blank line, the line that states the number of
  items; then for each snapshot in order a blank line, the name in bold, the line with
  the current price in bold and the original price struck through in parentheses, and
  the link labelled \<^verbatim>\<open>Tap to open in app\<close> to the deep link of the snapshot's URL.
\<close>

theorem final_message_layout:
  assumes "sale_items \<noteq> []" and "\<forall>item \<in> set sale_items. original_price item \<noteq> None"
  shows "final_message d sale_items = join nl (message_lines d sale_items)"
proof -
  from assms(1) obtain item items where s: "sale_items = item # items"
    by (cases sale_items) auto
  have "join nl (message_lines d sale_items) =
      title_mark @ py '' *Uniqlo Sale Alert!* '' @ title_mark @ nl @ nl @
      py ''You have '' @ str_nat (length sale_items) @ py '' item(s) on sale:'' @
      concat (map (\<lambda>y. nl @ y)
        (concat (map (\<lambda>item. [] # block_lines d item) sale_items)))"
    by (simp add: message_lines_def header_lines_def join_Cons bold_def py_def)
  also have "\<dots> = title_mark @ py '' *Uniqlo Sale Alert!* '' @ title_mark @ nl @ nl @
      py ''You have '' @ str_nat (length sale_items) @ py '' item(s) on sale:'' @
      concat (map (\<lambda>item. nl @ detail_line d item) sale_items)"
    by (simp only: blocks_after_blank_lines [OF assms(2)])
  also have "\<dots> = message_title (length sale_items) @ join nl (map (detail_line d) sale_items)"
    by (simp add: s message_title_def join_Cons comp_def)
  finally show ?thesis
    by (simp add: final_message_def details_loop_map)
qed

text \<open>
  Claim C8 at two sale snapshots.
\<close>

theorem final_message_layout_witness:
  "[shirt_on_sale, socks_on_sale] \<noteq> [] \<and>
   original_price shirt_on_sale \<noteq> None \<and> original_price socks_on_sale \<noteq> None \<and>
   final_message ascii_digit [shirt_on_sale, socks_on_sale] =
     join nl
       [title_mark @ py '' *Uniqlo Sale Alert!* '' @ title_mark,
        [],
        py ''You have 2 item(s) on sale:'',
        [],
        py ''*Shirt*'',
        py ''Now *90* (was ~120~)'',
        py ''[Tap to open in app](https://s.uniqlo.com/id/en/product/E479169-000)'',
        [],
        py ''*Socks*'',
        py ''Now *15* (was ~20~)'',
        py ''[Tap to open in app](https://site/no-id-here)'']"
proof -
  have a: "[shirt_on_sale, socks_on_sale] \<noteq> []" by simp
  have b: "\<forall>item \<in> set [shirt_on_sale, socks_on_sale]. original_price item \<noteq> None"
    by (simp add: shirt_on_sale_def socks_on_sale_def)
  have c1: "convert_to_app_link ascii_digit item_url = py ''https://s.uniqlo.com/id/en/product/E479169-000''"
    by (simp add: item_url_def convert_to_app_link_def product_id_pattern_atoms py_def
        ascii_digit_def deep_link_prefix_def)
  have c2: "convert_to_app_link ascii_digit no_id_url = no_id_url"
    by (simp add: no_id_url_def convert_to_app_link_def product_id_pattern_atoms py_def)
  have n: "str_nat (Suc (Suc 0)) = py ''2''" by (simp add: str_nat.simps py_def)
  have l: "message_lines ascii_digit [shirt_on_sale, socks_on_sale] =
       [title_mark @ py '' *Uniqlo Sale Alert!* '' @ title_mark,
        [],
        py ''You have 2 item(s) on sale:'',
        [],
        py ''*Shirt*'',
        py ''Now *90* (was ~120~)'',
        py ''[Tap to open in app](https://s.uniqlo.com/id/en/product/E479169-000)'',
        [],
        py ''*Socks*'',
        py ''Now *15* (was ~20~)'',
        py ''[Tap to open in app](https://site/no-id-here)'']"
    by (simp add: message_lines_def header_lines_def block_lines_def bold_def strikethrough_def
        hyperlink_def shirt_on_sale_def socks_on_sale_def c1 c2 n)
      (simp add: py_def no_id_url_def)
  have c: "original_price shirt_on_sale \<noteq> None \<and> original_price socks_on_sale \<noteq> None"
    using b by simp
  from final_message_layout [OF a b, of ascii_digit] a c show ?thesis
    unfolding l by blast
qed

end
